theory Spec2Isabelle
  imports Main
begin

section \<open>The operating system as the two programs see it\<close>

text \<open>
  Both programs (\<^verbatim>\<open>script_timer.py\<close>, the PyQt5 window, and
  \<^verbatim>\<open>simple_script_timer.py\<close>, the console menu) start a child process with
  \<^verbatim>\<open>subprocess.Popen([self.script_path])\<close>, keep the returned handle in the list
  \<^verbatim>\<open>self.running_processes\<close>, and call \<^verbatim>\<open>poll()\<close>,
  \<^verbatim>\<open>wait()\<close> and \<^verbatim>\<open>terminate()\<close> on handles.

  A handle is the index of the process in the table of all processes spawned so far.
  What the operating system decides is a parameter of the model: whether
  \<^verbatim>\<open>Popen\<close> raises for a path (and with which message), whether
  \<^verbatim>\<open>terminate()\<close> raises for a handle, and whether a path exists.
\<close>

datatype pstate = Running | Exited | Terminated

record os =
  path_exists :: "string \<Rightarrow> bool"
  popen_error :: "string \<Rightarrow> string option"
  terminate_raises :: "nat \<Rightarrow> bool"

text \<open>\<^verbatim>\<open>process.poll() is not None\<close>: the process is no longer running.\<close>

definition finished :: "pstate list \<Rightarrow> nat \<Rightarrow> bool" where
  "finished ps p = (p < length ps \<and> ps ! p \<noteq> Running)"

text \<open>
  The effect of \<^verbatim>\<open>process.terminate()\<close> when it does not raise: a running process
  is terminated, a process that has ended stays as it is.
\<close>

definition terminate :: "nat \<Rightarrow> pstate list \<Rightarrow> pstate list" where
  "terminate p ps = (if p < length ps \<and> ps ! p = Running then ps[p := Terminated] else ps)"

text \<open>
  \<^verbatim>\<open>try: process.terminate() except: pass\<close>, the form in which both programs call it.
\<close>

definition try_terminate :: "os \<Rightarrow> nat \<Rightarrow> pstate list \<Rightarrow> pstate list" where
  "try_terminate sys p ps = (if terminate_raises sys p then ps else terminate p ps)"

text \<open>\<^verbatim>\<open>os.path.basename\<close> on a POSIX path.\<close>

definition basename :: "string \<Rightarrow> string" where
  "basename p = rev (takeWhile (\<lambda>c. c \<noteq> CHR ''/'') (rev p))"

section \<open>\<^verbatim>\<open>script_timer.py\<close>: class ScriptTimer\<close>

subsection \<open>Qt values\<close>

text \<open>
  A \<^verbatim>\<open>QTime\<close> is a time of day, held by Qt as the number of milliseconds since the
  start of the day (\<open>0 \<le> t < 86400000\<close>). \<^verbatim>\<open>a.msecsTo(b)\<close> is the number of
  milliseconds from \<open>a\<close> to \<open>b\<close>, negative when \<open>b\<close> is the earlier one.
\<close>

type_synonym qtime = int

definition QTime :: "int \<Rightarrow> int \<Rightarrow> int \<Rightarrow> qtime" where
  "QTime h m s = ((h * 60 + m) * 60 + s) * 1000"

definition msecsTo :: "qtime \<Rightarrow> qtime \<Rightarrow> int" where
  "msecsTo a b = b - a"

definition msecsSinceStartOfDay :: "qtime \<Rightarrow> int" where
  "msecsSinceStartOfDay t = t"

text \<open>
  A \<^verbatim>\<open>QTimer\<close> object: \<^verbatim>\<open>start(msec)\<close> sets the interval and (re)starts it,
  \<^verbatim>\<open>stop()\<close> stops it. Neither program calls \<^verbatim>\<open>setSingleShot\<close>, so an active
  timer emits \<^verbatim>\<open>timeout\<close> after every interval and stays active.
\<close>

record qtimer =
  active :: bool
  interval :: int

definition qtimer_new :: qtimer where
  "qtimer_new = \<lparr>active = False, interval = 0\<rparr>"

definition qtimer_start :: "int \<Rightarrow> qtimer \<Rightarrow> qtimer" where
  "qtimer_start msec t = \<lparr>active = True, interval = msec\<rparr>"

definition qtimer_stop :: "qtimer \<Rightarrow> qtimer" where
  "qtimer_stop t = t\<lparr>active := False\<rparr>"

text \<open>The slot a toggle button is connected to: the \<^verbatim>\<open>start_...\<close> or the \<^verbatim>\<open>stop_...\<close> method.\<close>

datatype slot = StartSlot | StopSlot

text \<open>The texts written to \<^verbatim>\<open>status_label\<close>, one constructor for each format string.\<close>

datatype status =
    Ready
  | ScriptSelected string
  | RunningFor int
  | CloseTimerStopped
  | WillRepeatEvery int
  | RepeatTimerStopped
  | ScheduledDaily qtime
  | ScheduledOnce qtime
  | ScheduleTimerStopped
  | ScriptStarted string
  | ErrorRunning string
  | ScheduledStarted string
  | ErrorRunningScheduled string
  | ScriptCompleted
  | AllTimersStopped

text \<open>\<^verbatim>\<open>QMessageBox.warning(self, "No Script", ...)\<close> followed by \<^verbatim>\<open>return\<close>.\<close>

datatype warning = NoScript

subsection \<open>The window's state\<close>

text \<open>
  The fields of \<^verbatim>\<open>ScriptTimer\<close> and the widget values its methods read.
    \<^item> \<open>schedule_conns\<close>: how many times \<^verbatim>\<open>run_scheduled_script\<close> is connected to
      \<^verbatim>\<open>schedule_timer.timeout\<close> (\<^verbatim>\<open>connect\<close> adds a connection at every call);
      \<^verbatim>\<open>timer.timeout\<close> is connected once, to \<^verbatim>\<open>check_processes\<close>, in
      \<^verbatim>\<open>__init__\<close>.
    \<^item> \<open>single_shots\<close>: the delays of the pending \<^verbatim>\<open>QTimer.singleShot\<close> calls, each
      with the callback \<^verbatim>\<open>run_scheduled_script\<close>. \<^verbatim>\<open>singleShot\<close> is a static
      function of \<^verbatim>\<open>QTimer\<close>: \<^verbatim>\<open>self.schedule_timer.singleShot(...)\<close> creates a
      timer of its own and does not touch \<^verbatim>\<open>self.schedule_timer\<close>. The list keeps
      each delay as it was handed to \<^verbatim>\<open>singleShot\<close>. Qt refuses a negative delay with
      a warning and arms nothing: such an entry stays in the list as a record of the call
      and never fires.
    \<^item> \<open>procs\<close>: the table of the processes spawned so far (the operating system's side
      of the handles in \<open>running_processes\<close>).
    \<^item> \<open>close_button\<close>, \<open>repeat_button\<close>, \<open>schedule_button\<close>: the slot the button's
      \<^verbatim>\<open>clicked\<close> signal is connected to, which changes together with its caption.
  \<^verbatim>\<open>script_label\<close> is left out: it is written with the status and read nowhere.
\<close>

record gui =
  script_path :: string
  timer :: qtimer
  schedule_timer :: qtimer
  schedule_conns :: nat
  single_shots :: "int list"
  running_processes :: "nat list"
  procs :: "pstate list"
  close_time_spin :: int
  repeat_time_spin :: int
  time_edit :: qtime
  schedule_checkbox :: bool
  close_button :: slot
  repeat_button :: slot
  schedule_button :: slot
  stop_button_enabled :: bool
  status_label :: status

text \<open>\<^verbatim>\<open>__init__\<close> and \<^verbatim>\<open>init_ui\<close>; \<open>now\<close> is \<^verbatim>\<open>QTime.currentTime()\<close>.\<close>

definition init :: "qtime \<Rightarrow> gui" where
  "init now = \<lparr>script_path = [], timer = qtimer_new, schedule_timer = qtimer_new,
     schedule_conns = 0, single_shots = [], running_processes = [], procs = [],
     close_time_spin = 10, repeat_time_spin = 30, time_edit = now,
     schedule_checkbox = False, close_button = StartSlot, repeat_button = StartSlot,
     schedule_button = StartSlot, stop_button_enabled = False, status_label = Ready\<rparr>"

subsection \<open>The methods\<close>

text \<open>\<^verbatim>\<open>select_script\<close>; \<open>file_name\<close> is what the file dialog returned (empty when cancelled).\<close>

definition select_script :: "string \<Rightarrow> gui \<Rightarrow> gui" where
  "select_script file_name s =
     (if file_name \<noteq> [] then
        s\<lparr>script_path := file_name, status_label := ScriptSelected (basename file_name)\<rparr>
      else s)"

definition run_script :: "os \<Rightarrow> gui \<Rightarrow> gui" where
  "run_script sys s =
     (case popen_error sys (script_path s) of
        None \<Rightarrow>
          s\<lparr>procs := procs s @ [Running],
            running_processes := running_processes s @ [length (procs s)],
            status_label := ScriptStarted (basename (script_path s))\<rparr>
      | Some e \<Rightarrow> s\<lparr>status_label := ErrorRunning e\<rparr>)"

definition run_scheduled_script :: "os \<Rightarrow> gui \<Rightarrow> gui" where
  "run_scheduled_script sys s =
     (case popen_error sys (script_path s) of
        None \<Rightarrow>
          s\<lparr>procs := procs s @ [Running],
            running_processes := running_processes s @ [length (procs s)],
            status_label := ScheduledStarted (basename (script_path s))\<rparr>
      | Some e \<Rightarrow> s\<lparr>status_label := ErrorRunningScheduled e\<rparr>)"

definition start_close_timer :: "os \<Rightarrow> gui \<Rightarrow> warning option \<times> gui" where
  "start_close_timer sys s =
     (if script_path s = [] then (Some NoScript, s)
      else
        let interval = close_time_spin s * 60000;
            s1 = s\<lparr>timer := qtimer_start interval (timer s), close_button := StopSlot,
                   stop_button_enabled := True\<rparr>;
            s2 = run_script sys s1
        in (None, s2\<lparr>status_label := RunningFor (close_time_spin s)\<rparr>))"

definition stop_close_timer :: "gui \<Rightarrow> gui" where
  "stop_close_timer s =
     s\<lparr>timer := qtimer_stop (timer s), close_button := StartSlot,
       stop_button_enabled := False, status_label := CloseTimerStopped\<rparr>"

definition start_repeat_timer :: "os \<Rightarrow> gui \<Rightarrow> warning option \<times> gui" where
  "start_repeat_timer sys s =
     (if script_path s = [] then (Some NoScript, s)
      else
        let interval = repeat_time_spin s * 60000;
            s1 = s\<lparr>timer := qtimer_start interval (timer s), repeat_button := StopSlot,
                   stop_button_enabled := True\<rparr>;
            s2 = run_script sys s1
        in (None, s2\<lparr>status_label := WillRepeatEvery (repeat_time_spin s)\<rparr>))"

definition stop_repeat_timer :: "gui \<Rightarrow> gui" where
  "stop_repeat_timer s =
     s\<lparr>timer := qtimer_stop (timer s), repeat_button := StartSlot,
       stop_button_enabled := False, status_label := RepeatTimerStopped\<rparr>"

text \<open>
  The delay computed by \<^verbatim>\<open>start_schedule_timer\<close>:
  \<open>today\<close> is \<^verbatim>\<open>QTime.currentTime()\<close>, \<open>scheduled_time\<close> is \<^verbatim>\<open>self.time_edit.time()\<close>.
\<close>

definition time_diff :: "qtime \<Rightarrow> qtime \<Rightarrow> int" where
  "time_diff scheduled_time today =
     (if scheduled_time \<le> today then
        let tomorrow = QTime 0 0 0
        in msecsTo today tomorrow + msecsSinceStartOfDay scheduled_time
      else msecsTo today scheduled_time)"

definition start_schedule_timer :: "qtime \<Rightarrow> gui \<Rightarrow> warning option \<times> gui" where
  "start_schedule_timer today s =
     (if script_path s = [] then (Some NoScript, s)
      else
        let scheduled_time = time_edit s;
            s1 = s\<lparr>single_shots := single_shots s @ [time_diff scheduled_time today],
                   schedule_button := StopSlot, stop_button_enabled := True\<rparr>
        in if schedule_checkbox s then
             (None, s1\<lparr>schedule_conns := Suc (schedule_conns s),
                       schedule_timer := qtimer_start (24 * 60 * 60 * 1000) (schedule_timer s),
                       status_label := ScheduledDaily scheduled_time\<rparr>)
           else (None, s1\<lparr>status_label := ScheduledOnce scheduled_time\<rparr>))"

definition stop_schedule_timer :: "gui \<Rightarrow> gui" where
  "stop_schedule_timer s =
     s\<lparr>schedule_timer := qtimer_stop (schedule_timer s), schedule_button := StartSlot,
       stop_button_enabled := False, status_label := ScheduleTimerStopped\<rparr>"

text \<open>
  \<^verbatim>\<open>check_processes\<close>: the loop runs over a copy of the list and removes from the list
  itself.
\<close>

definition check_one :: "gui \<Rightarrow> nat \<Rightarrow> gui" where
  "check_one s process =
     (if finished (procs s) process then
        s\<lparr>running_processes := remove1 process (running_processes s),
          status_label := ScriptCompleted\<rparr>
      else s)"

definition check_processes :: "gui \<Rightarrow> gui" where
  "check_processes s = foldl check_one s (running_processes s)"

definition stop_all :: "os \<Rightarrow> gui \<Rightarrow> gui" where
  "stop_all sys s =
     s\<lparr>procs := foldl (\<lambda>ps process. try_terminate sys process ps) (procs s) (running_processes s),
       running_processes := [],
       timer := qtimer_stop (timer s),
       schedule_timer := qtimer_stop (schedule_timer s),
       close_button := StartSlot, repeat_button := StartSlot, schedule_button := StartSlot,
       stop_button_enabled := False, status_label := AllTimersStopped\<rparr>"

subsection \<open>The event loop\<close>

text \<open>
  What can happen to the window: the user picks a file, edits a widget or clicks a button
  (a click on a toggle button calls the slot it is connected to; a disabled button cannot
  be clicked), a timer times out, or a child process ends by itself.
    \<^item> \<open>TimerTimeout\<close>: \<^verbatim>\<open>self.timer\<close> emits \<^verbatim>\<open>timeout\<close>, which calls
      \<^verbatim>\<open>check_processes\<close>;
    \<^item> \<open>ScheduleTimeout\<close>: \<^verbatim>\<open>self.schedule_timer\<close> emits \<^verbatim>\<open>timeout\<close>, which calls
      \<^verbatim>\<open>run_scheduled_script\<close> once for every connection;
    \<^item> \<open>SingleShotTimeout i\<close>: the \<open>i\<close>-th single-shot timer fires and calls
      \<^verbatim>\<open>run_scheduled_script\<close>; only a timer with a delay that is not negative has
      been armed and can fire.
\<close>

datatype event =
    SelectScript string
  | SetCloseSpin int
  | SetRepeatSpin int
  | SetTimeEdit qtime
  | SetCheckbox bool
  | ClickClose
  | ClickRepeat
  | ClickSchedule qtime
  | ClickStopAll
  | TimerTimeout
  | ScheduleTimeout
  | SingleShotTimeout nat
  | ProcessExits nat

definition timer_timeout :: "gui \<Rightarrow> gui" where
  "timer_timeout s = (if active (timer s) then check_processes s else s)"

definition schedule_timeout :: "os \<Rightarrow> gui \<Rightarrow> gui" where
  "schedule_timeout sys s =
     (if active (schedule_timer s) then (run_scheduled_script sys ^^ schedule_conns s) s else s)"

definition armed_single_shots :: "gui \<Rightarrow> int list" where
  "armed_single_shots s = filter (\<lambda>msec. 0 \<le> msec) (single_shots s)"

definition single_shot_timeout :: "os \<Rightarrow> nat \<Rightarrow> gui \<Rightarrow> gui" where
  "single_shot_timeout sys i s =
     (if i < length (single_shots s) \<and> 0 \<le> single_shots s ! i then
        run_scheduled_script sys
          (s\<lparr>single_shots := take i (single_shots s) @ drop (Suc i) (single_shots s)\<rparr>)
      else s)"

definition process_exits :: "nat \<Rightarrow> gui \<Rightarrow> gui" where
  "process_exits p s =
     (if p < length (procs s) \<and> procs s ! p = Running then s\<lparr>procs := (procs s)[p := Exited]\<rparr>
      else s)"

text \<open>The spin boxes have the range 1 to 10000 (\<^verbatim>\<open>setRange(1, 10000)\<close>).\<close>

definition spin_value :: "int \<Rightarrow> int" where
  "spin_value v = max 1 (min 10000 v)"

fun handle :: "os \<Rightarrow> event \<Rightarrow> gui \<Rightarrow> gui" where
  "handle sys (SelectScript f) s = select_script f s"
| "handle sys (SetCloseSpin v) s = s\<lparr>close_time_spin := spin_value v\<rparr>"
| "handle sys (SetRepeatSpin v) s = s\<lparr>repeat_time_spin := spin_value v\<rparr>"
| "handle sys (SetTimeEdit t) s = s\<lparr>time_edit := t\<rparr>"
| "handle sys (SetCheckbox b) s = s\<lparr>schedule_checkbox := b\<rparr>"
| "handle sys ClickClose s =
     (case close_button s of StartSlot \<Rightarrow> snd (start_close_timer sys s)
      | StopSlot \<Rightarrow> stop_close_timer s)"
| "handle sys ClickRepeat s =
     (case repeat_button s of StartSlot \<Rightarrow> snd (start_repeat_timer sys s)
      | StopSlot \<Rightarrow> stop_repeat_timer s)"
| "handle sys (ClickSchedule today) s =
     (case schedule_button s of StartSlot \<Rightarrow> snd (start_schedule_timer today s)
      | StopSlot \<Rightarrow> stop_schedule_timer s)"
| "handle sys ClickStopAll s = (if stop_button_enabled s then stop_all sys s else s)"
| "handle sys TimerTimeout s = timer_timeout s"
| "handle sys ScheduleTimeout s = schedule_timeout sys s"
| "handle sys (SingleShotTimeout i) s = single_shot_timeout sys i s"
| "handle sys (ProcessExits p) s = process_exits p s"

text \<open>The window after a sequence of events, from a given state.\<close>

definition run :: "os \<Rightarrow> event list \<Rightarrow> gui \<Rightarrow> gui" where
  "run sys es s = foldl (\<lambda>s e. handle sys e s) s es"

section \<open>\<^verbatim>\<open>simple_script_timer.py\<close>: class SimpleScriptTimer\<close>

subsection \<open>Python values\<close>

text \<open>
  A character is a code point from 0 to 255, so a \<open>string\<close> is a Python \<^verbatim>\<open>str\<close> of such
  code points. Among them \<^verbatim>\<open>str.isspace()\<close> holds for tab, line feed, vertical tab,
  form feed, carriage return, the four separators \<open>0x1C\<close> to \<open>0x1F\<close>, the space, the
  next-line control \<open>0x85\<close> and the no-break space \<open>0xA0\<close>; \<^verbatim>\<open>str.strip()\<close> removes
  these at both ends. \<^verbatim>\<open>str.lower()\<close> maps \<open>A\<close> to \<open>Z\<close> and the capital letters
  \<open>0xC0\<close> to \<open>0xDE\<close> (without the multiplication sign \<open>0xD7\<close>) to the code point 32
  above and leaves every other character as it is.
\<close>

definition is_space :: "char \<Rightarrow> bool" where
  "is_space c = ((of_char c :: nat) \<in> {9, 10, 11, 12, 13, 28, 29, 30, 31, 32, 133, 160})"

definition strip :: "string \<Rightarrow> string" where
  "strip s = rev (dropWhile is_space (rev (dropWhile is_space s)))"

definition upper_letters :: string where
  "upper_letters = ''ABCDEFGHIJKLMNOPQRSTUVWXYZ'' @
     [CHR 0xC0, CHR 0xC1, CHR 0xC2, CHR 0xC3, CHR 0xC4, CHR 0xC5, CHR 0xC6, CHR 0xC7,
      CHR 0xC8, CHR 0xC9, CHR 0xCA, CHR 0xCB, CHR 0xCC, CHR 0xCD, CHR 0xCE, CHR 0xCF,
      CHR 0xD0, CHR 0xD1, CHR 0xD2, CHR 0xD3, CHR 0xD4, CHR 0xD5, CHR 0xD6, CHR 0xD8,
      CHR 0xD9, CHR 0xDA, CHR 0xDB, CHR 0xDC, CHR 0xDD, CHR 0xDE]"

definition lower_letters :: string where
  "lower_letters = ''abcdefghijklmnopqrstuvwxyz'' @
     [CHR 0xE0, CHR 0xE1, CHR 0xE2, CHR 0xE3, CHR 0xE4, CHR 0xE5, CHR 0xE6, CHR 0xE7,
      CHR 0xE8, CHR 0xE9, CHR 0xEA, CHR 0xEB, CHR 0xEC, CHR 0xED, CHR 0xEE, CHR 0xEF,
      CHR 0xF0, CHR 0xF1, CHR 0xF2, CHR 0xF3, CHR 0xF4, CHR 0xF5, CHR 0xF6, CHR 0xF8,
      CHR 0xF9, CHR 0xFA, CHR 0xFB, CHR 0xFC, CHR 0xFD, CHR 0xFE]"

definition lower_char :: "char \<Rightarrow> char" where
  "lower_char c = (case map_of (zip upper_letters lower_letters) c of Some l \<Rightarrow> l | None \<Rightarrow> c)"

definition lower :: "string \<Rightarrow> string" where
  "lower s = map lower_char s"

text \<open>
  A naive local \<^verbatim>\<open>datetime\<close> is the number of microseconds since midnight of some
  fixed day, so that a day starts at every multiple of \<open>usec_per_day\<close>; a
  \<^verbatim>\<open>timedelta\<close> is a number of microseconds.
  \<^verbatim>\<open>now.replace(hour=h, minute=m, second=0, microsecond=0)\<close> keeps the date of \<open>now\<close>.
\<close>

type_synonym datetime = int

definition usec_per_day :: int where
  "usec_per_day = 86400 * 1000000"

definition replace_hm :: "datetime \<Rightarrow> int \<Rightarrow> int \<Rightarrow> datetime" where
  "replace_hm now hour minute =
     (now div usec_per_day) * usec_per_day + (hour * 3600 + minute * 60) * 1000000"

text \<open>
  A \<^verbatim>\<open>threading.Timer\<close>: its interval (in microseconds: \<^verbatim>\<open>Timer(minutes * 60, f)\<close>
  has the interval \<open>minutes * 60 * 1000000\<close>), the function it calls, and whether it is
  still waiting. The two functions given to timers are the closures
  \<^verbatim>\<open>stop_script\<close> of \<^verbatim>\<open>close_after_time\<close> (over \<^verbatim>\<open>process\<close>) and
  \<^verbatim>\<open>run_scheduled_script\<close> of \<^verbatim>\<open>start_at_time\<close> (over \<^verbatim>\<open>hour\<close>,
  \<^verbatim>\<open>minute\<close> and \<^verbatim>\<open>repeat_daily\<close>).
\<close>

datatype callback = StopScript nat | RunScheduled int int bool

datatype tstate = Waiting | Cancelled | Fired

type_synonym ptimer = "int \<times> callback \<times> tstate"

text \<open>The lines the methods print (the prompts of \<^verbatim>\<open>input\<close> are left out).\<close>

datatype line =
    SelectPrompt
  | FileNotFound string
  | SelectedScript string
  | ScriptStartedLine string
  | ErrorRunningLine string
  | NoScriptSelected
  | InvalidNumber
  | RunningForLine int
  | ScriptClosed
  | RunningEveryLine int
  | ErrorLine string
  | PeriodicStopped
  | InvalidTimeFormat
  | ScheduledToRun datetime
  | WillRepeatDaily
  | TimerSet
  | Exiting

subsection \<open>The object's state\<close>

text \<open>
  The three fields of \<^verbatim>\<open>SimpleScriptTimer\<close>, the process table, the lines printed so
  far, and the threads of \<^verbatim>\<open>run_periodically\<close> that are still in their loop after
  \<^verbatim>\<open>repeat_every_time\<close> has returned (each with the \<^verbatim>\<open>minutes\<close> of its closure).
\<close>

record simple =
  c_script_path :: string
  c_running_processes :: "nat list"
  c_timers :: "ptimer list"
  c_procs :: "pstate list"
  console :: "line list"
  c_threads :: "int list"

definition simple_init :: simple where
  "simple_init = \<lparr>c_script_path = [], c_running_processes = [], c_timers = [], c_procs = [],
     console = [], c_threads = []\<rparr>"

definition print :: "line \<Rightarrow> simple \<Rightarrow> simple" where
  "print l s = s\<lparr>console := console s @ [l]\<rparr>"

subsection \<open>The methods\<close>

text \<open>\<^verbatim>\<open>select_script\<close>; \<open>inp\<close> is the line read by \<^verbatim>\<open>input\<close>.\<close>

definition c_select_script :: "os \<Rightarrow> string \<Rightarrow> simple \<Rightarrow> bool \<times> simple" where
  "c_select_script sys inp s =
     (let s0 = print SelectPrompt s;
          script_path = strip inp
      in if lower script_path = ''cancel'' then (False, s0)
         else if \<not> path_exists sys script_path then (False, print (FileNotFound script_path) s0)
         else (True, print (SelectedScript (basename script_path))
                       (s0\<lparr>c_script_path := script_path\<rparr>)))"

text \<open>\<^verbatim>\<open>run_script\<close> returns the process, or \<^verbatim>\<open>None\<close> when \<^verbatim>\<open>Popen\<close> raised.\<close>

definition c_run_script :: "os \<Rightarrow> simple \<Rightarrow> nat option \<times> simple" where
  "c_run_script sys s =
     (case popen_error sys (c_script_path s) of
        None \<Rightarrow>
          (Some (length (c_procs s)),
           print (ScriptStartedLine (basename (c_script_path s)))
             (s\<lparr>c_procs := c_procs s @ [Running],
                c_running_processes := c_running_processes s @ [length (c_procs s)]\<rparr>))
      | Some e \<Rightarrow> (None, print (ErrorRunningLine e) s))"

text \<open>
  The closure \<^verbatim>\<open>stop_script\<close>:
  \<^verbatim>\<open>try: process.terminate(); print(...) except: pass\<close>.
\<close>

definition stop_script :: "os \<Rightarrow> nat \<Rightarrow> simple \<Rightarrow> simple" where
  "stop_script sys process s =
     (if terminate_raises sys process then s
      else print ScriptClosed (s\<lparr>c_procs := terminate process (c_procs s)\<rparr>))"

text \<open>\<^verbatim>\<open>timer.cancel()\<close> stops a timer that is still waiting, and only such a timer.\<close>

definition cancel :: "nat \<Rightarrow> simple \<Rightarrow> simple" where
  "cancel t s =
     (if t < length (c_timers s) \<and> snd (snd (c_timers s ! t)) = Waiting then
        s\<lparr>c_timers := (c_timers s)[t := (fst (c_timers s ! t), fst (snd (c_timers s ! t)), Cancelled)]\<rparr>
      else s)"

definition mark_fired :: "nat \<Rightarrow> simple \<Rightarrow> simple" where
  "mark_fired t s =
     s\<lparr>c_timers := (c_timers s)[t := (fst (c_timers s ! t), fst (snd (c_timers s ! t)), Fired)]\<rparr>"

text \<open>The process ends by itself.\<close>

definition ends :: "nat \<Rightarrow> simple \<Rightarrow> simple" where
  "ends p s =
     (if p < length (c_procs s) \<and> c_procs s ! p = Running then
        s\<lparr>c_procs := (c_procs s)[p := Exited]\<rparr>
      else s)"

text \<open>
  \<^verbatim>\<open>close_after_time\<close>. \<open>inp\<close> is the result of \<^verbatim>\<open>int(input(...))\<close>
  (\<open>None\<close> for a \<^verbatim>\<open>ValueError\<close>); \<open>lifetime\<close> is the time in microseconds after
  which the launched process would end by itself (\<open>None\<close>: it never would).

  After the timer is started the method blocks in \<^verbatim>\<open>process.wait()\<close>. If the process
  ends before the interval has passed, the timer is cancelled while it waits. Otherwise
  the timer fires and runs \<^verbatim>\<open>stop_script\<close>; \<^verbatim>\<open>wait()\<close> then returns once the
  process has ended, terminated or by itself, and the closing \<^verbatim>\<open>timer.cancel()\<close> finds
  a timer that has fired. The result is \<open>None\<close> when \<^verbatim>\<open>wait()\<close> never returns.
\<close>

definition close_after_time :: "os \<Rightarrow> int option \<Rightarrow> int option \<Rightarrow> simple \<Rightarrow> simple option" where
  "close_after_time sys inp lifetime s =
     (if c_script_path s = [] then Some (print NoScriptSelected s)
      else case inp of
        None \<Rightarrow> Some (print InvalidNumber s)
      | Some minutes \<Rightarrow>
          (case c_run_script sys (print (RunningForLine minutes) s) of
             (None, s1) \<Rightarrow> Some s1
           | (Some process, s1) \<Rightarrow>
               let t = length (c_timers s1);
                   s2 = s1\<lparr>c_timers := c_timers s1 @
                          [(minutes * 60 * 1000000, StopScript process, Waiting)]\<rparr>
               in (case lifetime of
                     Some l \<Rightarrow>
                       if l < minutes * 60 * 1000000 then Some (cancel t (ends process s2))
                       else Some (cancel t (ends process (stop_script sys process (mark_fired t s2))))
                   | None \<Rightarrow>
                       let s3 = stop_script sys process (mark_fired t s2)
                       in if c_procs s3 ! process = Running then None else Some (cancel t s3))))"

text \<open>
  One pass through the loop of \<^verbatim>\<open>run_periodically\<close>: launch, wait for the process to
  end, sleep. The loop has no exit of its own; it leaves through an exception only, and
  the one that can arise is the \<^verbatim>\<open>ValueError\<close> of \<^verbatim>\<open>time.sleep\<close> for a negative
  length. The first component of the result says whether the loop has left.
\<close>

definition iteration :: "os \<Rightarrow> int \<Rightarrow> simple \<Rightarrow> bool \<times> simple" where
  "iteration sys minutes s =
     (let (process, s1) = c_run_script sys s;
          s2 = (case process of None \<Rightarrow> s1 | Some p \<Rightarrow> ends p s1)
      in if minutes * 60 < 0 then (True, print (ErrorLine ''sleep length must be non-negative'') s2)
         else (False, s2))"

text \<open>The loop for at most \<open>n\<close> passes.\<close>

fun run_periodically :: "nat \<Rightarrow> os \<Rightarrow> int \<Rightarrow> simple \<Rightarrow> bool \<times> simple" where
  "run_periodically 0 sys minutes s = (False, s)"
| "run_periodically (Suc n) sys minutes s =
     (case iteration sys minutes s of
        (True, s1) \<Rightarrow> (True, s1)
      | (False, s1) \<Rightarrow> run_periodically n sys minutes s1)"

text \<open>
  \<^verbatim>\<open>repeat_every_time\<close>. The loop runs in a daemon thread and the main thread waits in
  \<^verbatim>\<open>thread.join()\<close>. \<open>n\<close> is the number of passes the loop gets to make before the
  main thread is interrupted there. If the loop has left by then, \<^verbatim>\<open>join\<close> has
  returned. If not, the interrupt reaches the main thread alone: the method prints that
  the execution has stopped and returns, and the thread stays in its loop.
\<close>

definition repeat_every_time :: "os \<Rightarrow> int option \<Rightarrow> nat \<Rightarrow> simple \<Rightarrow> simple" where
  "repeat_every_time sys inp n s =
     (if c_script_path s = [] then print NoScriptSelected s
      else case inp of
        None \<Rightarrow> print InvalidNumber s
      | Some minutes \<Rightarrow>
          (case run_periodically n sys minutes (print (RunningEveryLine minutes) s) of
             (True, s1) \<Rightarrow> s1
           | (False, s1) \<Rightarrow> (print PeriodicStopped s1)\<lparr>c_threads := c_threads s1 @ [minutes]\<rparr>))"

text \<open>A thread that is still in its loop makes one more pass.\<close>

definition thread_continues :: "os \<Rightarrow> nat \<Rightarrow> simple \<Rightarrow> simple" where
  "thread_continues sys i s =
     (if i < length (c_threads s) then
        case iteration sys (c_threads s ! i) s of
          (True, s1) \<Rightarrow> s1\<lparr>c_threads := take i (c_threads s1) @ drop (Suc i) (c_threads s1)\<rparr>
        | (False, s1) \<Rightarrow> s1
      else s)"

text \<open>
  \<^verbatim>\<open>start_at_time\<close>, up to the loop that keeps the main thread alive. \<open>parsed\<close> is the
  pair \<^verbatim>\<open>(int(time_parts[0]), int(time_parts[1]))\<close>, \<open>None\<close> when splitting or
  conversion raised; \<open>now1\<close>, \<open>now2\<close> and \<open>now3\<close> are the three readings of
  \<^verbatim>\<open>datetime.now()\<close>, in the order of the calls.
\<close>

definition target_time :: "int \<Rightarrow> int \<Rightarrow> datetime \<Rightarrow> datetime \<Rightarrow> datetime" where
  "target_time hour minute now1 now2 =
     (let target = replace_hm now1 hour minute
      in if target \<le> now2 then target + usec_per_day else target)"

definition start_at_time ::
    "(int \<times> int) option \<Rightarrow> bool \<Rightarrow> datetime \<Rightarrow> datetime \<Rightarrow> datetime \<Rightarrow> simple \<Rightarrow> simple" where
  "start_at_time parsed repeat_daily now1 now2 now3 s =
     (if c_script_path s = [] then print NoScriptSelected s
      else case parsed of
        None \<Rightarrow> print InvalidTimeFormat s
      | Some (hour, minute) \<Rightarrow>
          if 0 \<le> hour \<and> hour \<le> 23 \<and> 0 \<le> minute \<and> minute \<le> 59 then
            let target = target_time hour minute now1 now2;
                delay = target - now3;
                s1 = print (ScheduledToRun target) s;
                s2 = (if repeat_daily then print WillRepeatDaily s1 else s1);
                s3 = s2\<lparr>c_timers := c_timers s2 @
                       [(delay, RunScheduled hour minute repeat_daily, Waiting)]\<rparr>
            in print TimerSet s3
          else print InvalidTimeFormat s)"

text \<open>
  A waiting timer fires and calls its function; \<open>now1\<close> and \<open>now2\<close> are the readings of
  \<^verbatim>\<open>datetime.now()\<close> in \<^verbatim>\<open>run_scheduled_script\<close>.
\<close>

fun call :: "os \<Rightarrow> datetime \<Rightarrow> datetime \<Rightarrow> callback \<Rightarrow> simple \<Rightarrow> simple" where
  "call sys now1 now2 (StopScript process) s = stop_script sys process s"
| "call sys now1 now2 (RunScheduled hour minute repeat_daily) s =
     (let s1 = snd (c_run_script sys s)
      in if repeat_daily then
           let next_run = replace_hm now1 hour minute + usec_per_day;
               delay = next_run - now2
           in s1\<lparr>c_timers := c_timers s1 @
                  [(delay, RunScheduled hour minute repeat_daily, Waiting)]\<rparr>
         else s1)"

definition timer_fires :: "os \<Rightarrow> datetime \<Rightarrow> datetime \<Rightarrow> nat \<Rightarrow> simple \<Rightarrow> simple" where
  "timer_fires sys now1 now2 t s =
     (if t < length (c_timers s) \<and> snd (snd (c_timers s ! t)) = Waiting then
        call sys now1 now2 (fst (snd (c_timers s ! t))) (mark_fired t s)
      else s)"

text \<open>
  The \<^verbatim>\<open>KeyboardInterrupt\<close> handler of \<^verbatim>\<open>start_at_time\<close>:
  \<^verbatim>\<open>for t in self.timers: t.cancel()\<close>.
\<close>

definition keyboard_interrupt :: "simple \<Rightarrow> simple" where
  "keyboard_interrupt s = foldl (\<lambda>s t. cancel t s) (print Exiting s) [0 ..< length (c_timers s)]"

section \<open>Concrete systems and states\<close>

text \<open>
  Four operating systems: one where every path exists, every launch succeeds and
  \<^verbatim>\<open>terminate()\<close> works; one that differs in that \<^verbatim>\<open>terminate()\<close> always raises;
  one where every path exists but no launch is permitted; and one that has
  \<^verbatim>\<open>/bin/true\<close> and nothing else.
\<close>

definition permissive :: os where
  "permissive = \<lparr>path_exists = (\<lambda>p. True), popen_error = (\<lambda>p. None),
     terminate_raises = (\<lambda>p. False)\<rparr>"

definition stubborn :: os where
  "stubborn = \<lparr>path_exists = (\<lambda>p. True), popen_error = (\<lambda>p. None),
     terminate_raises = (\<lambda>p. True)\<rparr>"

definition denied :: os where
  "denied = \<lparr>path_exists = (\<lambda>p. True),
     popen_error = (\<lambda>p. Some ''[Errno 13] Permission denied''),
     terminate_raises = (\<lambda>p. False)\<rparr>"

definition only_true :: os where
  "only_true = \<lparr>path_exists = (\<lambda>p. p = ''/bin/true''),
     popen_error = (\<lambda>p. if p = ''/bin/true'' then None
                        else Some ''[Errno 2] No such file or directory''),
     terminate_raises = (\<lambda>p. False)\<rparr>"

text \<open>The window is opened at 9:00 in each of the following sessions.\<close>

text \<open>A script is selected and the close timer is started with a duration of one minute.\<close>

definition close_started :: gui where
  "close_started =
     run permissive [SelectScript ''/bin/sleep'', SetCloseSpin 1, ClickClose] (init (QTime 9 0 0))"

text \<open>A script is selected and the repeat timer is started with an interval of one minute.\<close>

definition repeat_started :: gui where
  "repeat_started =
     run permissive [SelectScript ''/bin/true'', SetRepeatSpin 1, ClickRepeat] (init (QTime 9 0 0))"

text \<open>At 10:00 a script is scheduled for 11:00, not daily; then "Stop All" is clicked.\<close>

definition schedule_started :: gui where
  "schedule_started =
     run permissive
       [SelectScript ''/bin/true'', SetTimeEdit (QTime 11 0 0), ClickSchedule (QTime 10 0 0)]
       (init (QTime 9 0 0))"

definition schedule_stopped :: gui where
  "schedule_stopped = handle permissive ClickStopAll schedule_started"

text \<open>At 12:00 a script is scheduled for 11:00, not daily.\<close>

definition past_scheduled :: gui where
  "past_scheduled =
     run permissive
       [SelectScript ''/bin/true'', SetTimeEdit (QTime 11 0 0), ClickSchedule (QTime 12 0 0)]
       (init (QTime 9 0 0))"

text \<open>The close timer is started, and at 10:00 the script is also scheduled for 11:00.\<close>

definition both_armed :: gui where
  "both_armed =
     run permissive
       [SelectScript ''/bin/true'', ClickClose, SetTimeEdit (QTime 11 0 0),
        ClickSchedule (QTime 10 0 0)]
       (init (QTime 9 0 0))"

text \<open>The same session where \<^verbatim>\<open>terminate()\<close> raises, ended by a click on "Stop All".\<close>

definition all_stopped :: gui where
  "all_stopped =
     run stubborn
       [SelectScript ''/bin/sleep'', ClickClose, SetTimeEdit (QTime 11 0 0),
        ClickSchedule (QTime 10 0 0), ClickStopAll]
       (init (QTime 9 0 0))"

text \<open>A script is selected that the system does not permit to launch.\<close>

definition unlaunchable :: gui where
  "unlaunchable = run denied [SelectScript ''/etc/passwd''] (init (QTime 9 0 0))"

definition c_unlaunchable :: simple where
  "c_unlaunchable = snd (c_select_script denied ''/etc/passwd'' simple_init)"

text \<open>A script is selected on the permissive system.\<close>

definition selected :: gui where
  "selected = run permissive [SelectScript ''/bin/true''] (init (QTime 9 0 0))"

text \<open>
  A session with every widget changed: at 10:00 the script is scheduled daily for 11:00,
  then the repeat timer is started with an interval of seven minutes.
\<close>

definition repeating_daily :: gui where
  "repeating_daily =
     run permissive
       [SelectScript ''/bin/true'', SetCloseSpin 5, SetRepeatSpin 7, SetTimeEdit (QTime 11 0 0),
        SetCheckbox True, ClickSchedule (QTime 10 0 0), ClickRepeat]
       (init (QTime 9 0 0))"

text \<open>An input line with a no-break space in front and a next-line control at the end.\<close>

definition padded_true :: string where
  "padded_true = CHR 0xA0 # ''/bin/true'' @ [CHR 0x85]"

text \<open>The console program with \<^verbatim>\<open>/bin/true\<close> selected.\<close>

definition c_selected :: simple where
  "c_selected = snd (c_select_script permissive ''/bin/true'' simple_init)"

section \<open>Auxiliary notions\<close>

text \<open>The window's state without the text of the status label.\<close>

definition forget_status :: "gui \<Rightarrow> gui" where
  "forget_status s = s\<lparr>status_label := Ready\<rparr>"

text \<open>A timer after \<^verbatim>\<open>cancel()\<close>.\<close>

definition cancelled :: "ptimer \<Rightarrow> ptimer" where
  "cancelled t = (fst t, fst (snd t), if snd (snd t) = Waiting then Cancelled else snd (snd t))"

section \<open>The interval timer of the window\<close>

text \<open>
  \<^verbatim>\<open>self.timer\<close> is connected to \<^verbatim>\<open>check_processes\<close> alone. That method changes
  neither the process table nor the timer, so a timeout of the interval timer launches
  nothing and terminates nothing, and the timer stays armed.
\<close>

lemma check_one_procs: "procs (check_one s p) = procs s"
  by (simp add: check_one_def)

lemma foldl_check_one_procs: "procs (foldl check_one s ps) = procs s"
  by (induction ps arbitrary: s) (simp_all add: check_one_procs)

lemma timer_timeout_procs: "procs (timer_timeout s) = procs s"
  by (simp add: timer_timeout_def check_processes_def foldl_check_one_procs)

lemma timer_timeouts_procs: "procs ((timer_timeout ^^ n) s) = procs s"
  by (induction n) (simp_all add: timer_timeout_procs)

lemma check_one_timer: "timer (check_one s p) = timer s"
  by (simp add: check_one_def)

lemma foldl_check_one_timer: "timer (foldl check_one s ps) = timer s"
  by (induction ps arbitrary: s) (simp_all add: check_one_timer)

lemma timer_timeout_timer: "timer (timer_timeout s) = timer s"
  by (simp add: timer_timeout_def check_processes_def foldl_check_one_timer)

lemma timer_timeouts_timer: "timer ((timer_timeout ^^ n) s) = timer s"
  by (induction n) (simp_all add: timer_timeout_timer)

lemma process_exits_length: "length (procs (process_exits p s)) = length (procs s)"
  by (simp add: process_exits_def)

text \<open>While every tracked process is running, a timeout changes nothing at all.\<close>

lemma foldl_check_one_running:
  "list_all (\<lambda>p. \<not> finished (procs s) p) ps \<Longrightarrow> foldl check_one s ps = s"
  by (induction ps) (simp_all add: check_one_def)

lemma timer_timeout_all_running:
  "list_all (\<lambda>p. \<not> finished (procs s) p) (running_processes s) \<Longrightarrow> timer_timeout s = s"
  by (simp add: timer_timeout_def check_processes_def foldl_check_one_running)

lemma funpow_fixed: "f s = s \<Longrightarrow> (f ^^ n) s = s"
  by (induction n) simp_all

lemma close_started_eq:
  "close_started = (init (QTime 9 0 0))\<lparr>script_path := ''/bin/sleep'',
      timer := \<lparr>active = True, interval = 60000\<rparr>, running_processes := [0], procs := [Running],
      close_time_spin := 1, close_button := StopSlot, stop_button_enabled := True,
      status_label := RunningFor 1\<rparr>"
  by (simp add: close_started_def run_def init_def select_script_def start_close_timer_def
      run_script_def permissive_def spin_value_def qtimer_start_def qtimer_new_def Let_def)

text \<open>
  C1 (the window does not do what is stated). After "Start Close Timer" with a duration of
  one minute the script has been launched once and \<^verbatim>\<open>self.timer\<close> is armed with 60000 ms;
  but however often that timer times out, the launched process is still running and still
  tracked, and the timer is still active: its timeout polls the processes and terminates
  none, and it is not a one-shot timer.
\<close>

theorem close_timer_only_polls:
  "\<forall>n. procs ((timer_timeout ^^ n) close_started) = [Running] \<and>
       running_processes ((timer_timeout ^^ n) close_started) = [0] \<and>
       timer ((timer_timeout ^^ n) close_started) = \<lparr>active = True, interval = 60000\<rparr>"
proof
  fix n
  have "timer_timeout close_started = close_started"
    by (rule timer_timeout_all_running) (simp add: close_started_eq finished_def)
  then have "(timer_timeout ^^ n) close_started = close_started"
    by (rule funpow_fixed)
  then show "procs ((timer_timeout ^^ n) close_started) = [Running] \<and>
       running_processes ((timer_timeout ^^ n) close_started) = [0] \<and>
       timer ((timer_timeout ^^ n) close_started) = \<lparr>active = True, interval = 60000\<rparr>"
    by (simp add: close_started_eq)
qed

lemma repeat_started_procs: "procs repeat_started = [Running]"
  by (simp add: repeat_started_def run_def init_def select_script_def start_repeat_timer_def
      run_script_def permissive_def spin_value_def qtimer_start_def qtimer_new_def Let_def)

text \<open>
  C4 (the window does not do what is stated). After "Start Repeat Timer" with an interval of
  one minute the script has been launched once. Whatever number of timeouts of
  \<^verbatim>\<open>self.timer\<close> follows, before and after the launched process has ended, the process
  table still holds that one process: the script is never launched again.
\<close>

theorem repeat_timer_never_relaunches:
  "\<forall>m n. length (procs ((timer_timeout ^^ n) (process_exits 0 ((timer_timeout ^^ m) repeat_started)))) = 1"
  by (simp add: timer_timeouts_procs process_exits_length repeat_started_procs)

section \<open>The console program's timers\<close>

text \<open>
  In the console program the timer of \<^verbatim>\<open>close_after_time\<close> does terminate the launched
  process when that process outlives the interval, and it is cancelled when the process
  ends earlier.
\<close>

lemma close_after_time_terminates:
  assumes "c_script_path c \<noteq> []" and "popen_error sys (c_script_path c) = None"
      and "\<not> terminate_raises sys (length (c_procs c))"
      and "lifetime = None \<or> (\<exists>l. lifetime = Some l \<and> minutes * 60 * 1000000 \<le> l)"
  shows "\<exists>c'. close_after_time sys (Some minutes) lifetime c = Some c' \<and>
           c_procs c' = c_procs c @ [Terminated] \<and>
           c_timers c' =
             c_timers c @ [(minutes * 60 * 1000000, StopScript (length (c_procs c)), Fired)]"
  using assms
  by (auto simp: close_after_time_def c_run_script_def print_def stop_script_def terminate_def
      mark_fired_def cancel_def ends_def Let_def nth_append)

lemma close_after_time_early_exit:
  assumes "c_script_path c \<noteq> []" and "popen_error sys (c_script_path c) = None"
      and "l < minutes * 60 * 1000000"
  shows "\<exists>c'. close_after_time sys (Some minutes) (Some l) c = Some c' \<and>
           c_procs c' = c_procs c @ [Exited] \<and>
           c_timers c' =
             c_timers c @ [(minutes * 60 * 1000000, StopScript (length (c_procs c)), Cancelled)]"
  using assms
  by (auto simp: close_after_time_def c_run_script_def print_def stop_script_def terminate_def
      mark_fired_def cancel_def ends_def Let_def nth_append)

text \<open>
  The interrupt handler of \<^verbatim>\<open>start_at_time\<close> cancels every timer of the list, and a
  cancelled timer does not fire.
\<close>

lemma cancel_timers:
  "c_timers (cancel t s) =
     (if t < length (c_timers s) then (c_timers s)[t := cancelled (c_timers s ! t)]
      else c_timers s)"
  by (auto simp: cancel_def cancelled_def list_update_same_conv prod_eq_iff)

lemma foldl_cancel_timers:
  "k \<le> length (c_timers s) \<Longrightarrow>
   c_timers (foldl (\<lambda>s t. cancel t s) s [0 ..< k]) =
     map cancelled (take k (c_timers s)) @ drop k (c_timers s)"
proof (induction k)
  case 0
  then show ?case by simp
next
  case (Suc k)
  then have k: "k < length (c_timers s)" by simp
  have "c_timers (foldl (\<lambda>s t. cancel t s) s [0 ..< Suc k]) =
        (map cancelled (take k (c_timers s)) @ drop k (c_timers s))[k := cancelled (c_timers s ! k)]"
    using Suc k by (simp add: cancel_timers nth_append)
  also have "\<dots> = map cancelled (take (Suc k) (c_timers s)) @ drop (Suc k) (c_timers s)"
    using k by (simp add: list_update_append take_Suc_conv_app_nth Cons_nth_drop_Suc [symmetric])
  finally show ?case .
qed

lemma keyboard_interrupt_timers:
  "c_timers (keyboard_interrupt s) = map cancelled (c_timers s)"
  using foldl_cancel_timers [of "length (c_timers s)" "print Exiting s"]
  by (simp add: keyboard_interrupt_def print_def)

lemma cancelled_not_waiting: "snd (snd (cancelled t)) \<noteq> Waiting"
  by (simp add: cancelled_def)

lemma timer_fires_after_interrupt:
  "timer_fires sys now1 now2 t (keyboard_interrupt s) = keyboard_interrupt s"
proof -
  have "\<not> (t < length (c_timers (keyboard_interrupt s)) \<and>
           snd (snd (c_timers (keyboard_interrupt s) ! t)) = Waiting)"
    by (auto simp: keyboard_interrupt_timers cancelled_not_waiting)
  then show ?thesis
    unfolding timer_fires_def by (simp only: if_False)
qed

text \<open>
  An interrupt of \<^verbatim>\<open>repeat_every_time\<close> does not end the loop: the thread is still
  there after the method has returned, and its next pass launches the script again.
\<close>

lemma iteration_continues:
  "0 \<le> minutes \<Longrightarrow>
   fst (iteration sys minutes s) = False \<and>
   c_threads (snd (iteration sys minutes s)) = c_threads s \<and>
   c_script_path (snd (iteration sys minutes s)) = c_script_path s"
  by (simp add: iteration_def c_run_script_def ends_def print_def Let_def
      split: option.splits prod.splits)

lemma run_periodically_continues:
  "0 \<le> minutes \<Longrightarrow>
   fst (run_periodically n sys minutes s) = False \<and>
   c_threads (snd (run_periodically n sys minutes s)) = c_threads s \<and>
   c_script_path (snd (run_periodically n sys minutes s)) = c_script_path s"
proof (induction n arbitrary: s)
  case 0
  then show ?case by simp
next
  case (Suc n)
  obtain b s1 where it: "iteration sys minutes s = (b, s1)"
    by (cases "iteration sys minutes s")
  with iteration_continues [OF Suc.prems, of sys s]
  have b: "b = False" and s1: "c_threads s1 = c_threads s" "c_script_path s1 = c_script_path s"
    by simp_all
  show ?case
    using Suc.IH [OF Suc.prems, of s1] it b s1 by simp
qed

lemma iteration_launches:
  "popen_error sys (c_script_path s) = None \<Longrightarrow>
   length (c_procs (snd (iteration sys minutes s))) = Suc (length (c_procs s))"
  by (simp add: iteration_def c_run_script_def ends_def print_def Let_def)

lemma interrupted_thread_survives:
  assumes "c_script_path c \<noteq> []" and "0 \<le> minutes"
  shows "c_threads (repeat_every_time sys (Some minutes) n c) = c_threads c @ [minutes] \<and>
         c_script_path (repeat_every_time sys (Some minutes) n c) = c_script_path c"
proof -
  let ?c0 = "print (RunningEveryLine minutes) c"
  obtain b s1 where r: "run_periodically n sys minutes ?c0 = (b, s1)"
    by (cases "run_periodically n sys minutes ?c0")
  with run_periodically_continues [OF assms(2), of n sys ?c0]
  have "b = False" and "c_threads s1 = c_threads c" and "c_script_path s1 = c_script_path c"
    by (simp_all add: print_def)
  with assms(1) r show ?thesis
    by (simp add: repeat_every_time_def print_def)
qed

lemma interrupted_thread_keeps_launching:
  assumes "c_script_path c \<noteq> []" and "0 \<le> minutes"
      and "popen_error sys (c_script_path c) = None"
  shows "length (c_procs (thread_continues sys (length (c_threads c))
                   (repeat_every_time sys (Some minutes) n c))) =
         Suc (length (c_procs (repeat_every_time sys (Some minutes) n c)))"
proof -
  let ?c1 = "repeat_every_time sys (Some minutes) n c"
  have t: "c_threads ?c1 = c_threads c @ [minutes]" and p: "c_script_path ?c1 = c_script_path c"
    using interrupted_thread_survives [OF assms(1,2)] by simp_all
  obtain b s1 where it: "iteration sys minutes ?c1 = (b, s1)"
    by (cases "iteration sys minutes ?c1")
  have "b = False"
    using iteration_continues [OF assms(2), of sys ?c1] it by simp
  moreover have "length (c_procs s1) = Suc (length (c_procs ?c1))"
    using iteration_launches [of sys ?c1 minutes] assms(3) p it by simp
  ultimately show ?thesis
    using t it by (simp add: thread_continues_def)
qed

section \<open>Stopping the window's timers\<close>

lemma try_terminate_length: "length (try_terminate sys p ps) = length ps"
  by (simp add: try_terminate_def terminate_def)

lemma try_terminate_nth:
  "q < length ps \<Longrightarrow>
   try_terminate sys p ps ! q =
     (if q = p \<and> \<not> terminate_raises sys q \<and> ps ! q = Running then Terminated else ps ! q)"
  by (auto simp: try_terminate_def terminate_def nth_list_update)

lemma foldl_try_terminate_nth:
  "q < length ps \<Longrightarrow>
   foldl (\<lambda>ps p. try_terminate sys p ps) ps xs ! q =
     (if q \<in> set xs \<and> \<not> terminate_raises sys q \<and> ps ! q = Running then Terminated
      else ps ! q)"
proof (induction xs arbitrary: ps)
  case Nil
  then show ?case by simp
next
  case (Cons x xs)
  have len: "q < length (try_terminate sys x ps)"
    using Cons.prems by (simp add: try_terminate_length)
  show ?case
    using Cons.IH [OF len] Cons.prems by (auto simp: try_terminate_nth)
qed

text \<open>
  What \<^verbatim>\<open>stop_all\<close> does in every state: the tracked list is empty afterwards, the two
  timer objects are inactive, and a tracked process that was running is terminated
  unless \<^verbatim>\<open>terminate()\<close> raised for it. The pending single-shot timers are as before.
\<close>

lemma stop_all_tracked: "running_processes (stop_all sys s) = []"
  by (simp add: stop_all_def)

lemma stop_all_timers:
  "\<not> active (timer (stop_all sys s)) \<and> \<not> active (schedule_timer (stop_all sys s))"
  by (simp add: stop_all_def qtimer_stop_def)

lemma stop_all_procs:
  "q < length (procs s) \<Longrightarrow>
   procs (stop_all sys s) ! q =
     (if q \<in> set (running_processes s) \<and> \<not> terminate_raises sys q \<and> procs s ! q = Running
      then Terminated else procs s ! q)"
  by (simp add: stop_all_def foldl_try_terminate_nth)

lemma stop_all_single_shots: "single_shots (stop_all sys s) = single_shots s"
  by (simp add: stop_all_def)

lemma stop_schedule_timer_single_shots:
  "single_shots (stop_schedule_timer s) = single_shots s"
  by (simp add: stop_schedule_timer_def)

lemma schedule_started_eq:
  "schedule_started = (init (QTime 9 0 0))\<lparr>script_path := ''/bin/true'',
     single_shots := [3600000], time_edit := 39600000,
     schedule_button := StopSlot, stop_button_enabled := True,
     status_label := ScheduledOnce 39600000\<rparr>"
  by (simp add: schedule_started_def run_def init_def select_script_def start_schedule_timer_def
      time_diff_def msecsTo_def QTime_def Let_def)

text \<open>
  C2 (the window does not do what is stated). At 10:00 a script is scheduled for 11:00 and
  "Stop All" is clicked before anything has fired. Nothing has been launched, but the
  single-shot timer of 3600000 ms is still pending, and when it fires the script is
  launched and tracked.
\<close>

theorem stop_leaves_single_shot:
  "single_shots schedule_stopped = [3600000] \<and> procs schedule_stopped = [] \<and>
   procs (handle permissive (SingleShotTimeout 0) schedule_stopped) = [Running] \<and>
   running_processes (handle permissive (SingleShotTimeout 0) schedule_stopped) = [0]"
  by (simp add: schedule_stopped_def schedule_started_eq stop_all_def init_def
      single_shot_timeout_def run_scheduled_script_def permissive_def)

text \<open>
  C7 (the window does not do what is stated). "Stop All" is clicked while one launched
  process is tracked, \<^verbatim>\<open>self.timer\<close> is armed and a single-shot timer is pending, on a
  system where \<^verbatim>\<open>terminate()\<close> raises. The exception is swallowed: the process is
  still running, the tracked list is empty and both timer objects are inactive. The
  single-shot timer of 3600000 ms is still pending.
\<close>

theorem stop_all_at_pending_single_shot:
  "running_processes all_stopped = [] \<and> procs all_stopped = [Running] \<and>
   \<not> active (timer all_stopped) \<and> \<not> active (schedule_timer all_stopped) \<and>
   single_shots all_stopped = [3600000]"
  by (simp add: all_stopped_def run_def init_def select_script_def start_schedule_timer_def
      start_close_timer_def run_script_def stubborn_def qtimer_start_def qtimer_stop_def
      qtimer_new_def stop_all_def try_terminate_def
      time_diff_def msecsTo_def msecsSinceStartOfDay_def QTime_def Let_def)

section \<open>The delay to a time of day\<close>

text \<open>
  In the window both branches of the computation give the scheduled time minus the
  current time: \<^verbatim>\<open>today.msecsTo(QTime(0, 0, 0))\<close> is the negated current time, not the
  time left until midnight.
\<close>

lemma time_diff_eq: "time_diff scheduled_time today = scheduled_time - today"
  by (simp add: time_diff_def msecsTo_def msecsSinceStartOfDay_def QTime_def Let_def)

lemma time_diff_past: "scheduled_time \<le> today \<Longrightarrow> time_diff scheduled_time today \<le> 0"
  by (simp add: time_diff_eq)

text \<open>
  C3 (the window does not do what is stated). At 12:00 a script is scheduled for 11:00,
  not daily. The delay computed, and handed to the single-shot timer, is \<open>-3600000\<close> ms;
  a launch at 11:00 of the next day needs the delay 82800000 ms.
\<close>

theorem past_time_delay_negative:
  "time_diff (QTime 11 0 0) (QTime 12 0 0) = - 3600000 \<and>
   single_shots past_scheduled = [- 3600000]"
  by (simp add: past_scheduled_def run_def init_def select_script_def start_schedule_timer_def
      time_diff_def msecsTo_def msecsSinceStartOfDay_def QTime_def Let_def)

text \<open>The single-shot timer asked for with that delay is not armed and never fires.\<close>

lemma past_scheduled_never_fires:
  "armed_single_shots past_scheduled = [] \<and>
   single_shot_timeout sys i past_scheduled = past_scheduled"
proof -
  have "single_shots past_scheduled = [- 3600000]"
    by (simp add: past_scheduled_def run_def init_def select_script_def start_schedule_timer_def
        time_diff_def msecsTo_def msecsSinceStartOfDay_def QTime_def Let_def)
  then show ?thesis
    by (auto simp: armed_single_shots_def single_shot_timeout_def)
qed

text \<open>
  The console program adds a day to a target that is not later than the current time.
  With one reading \<open>now\<close> of the clock the target is the given time of day on the day of
  \<open>now\<close> or on the next day, and the delay is positive.
\<close>

lemma usec_per_day_pos: "0 < usec_per_day"
  by (simp add: usec_per_day_def)

lemma replace_hm_lower:
  assumes "0 \<le> hour" and "0 \<le> minute"
  shows "(now div usec_per_day) * usec_per_day \<le> replace_hm now hour minute"
  using assms by (simp add: replace_hm_def)

lemma target_time_today:
  "now < replace_hm now hour minute \<Longrightarrow>
   target_time hour minute now now = replace_hm now hour minute"
  by (simp add: target_time_def Let_def)

lemma target_time_tomorrow:
  "replace_hm now hour minute \<le> now \<Longrightarrow>
   target_time hour minute now now = replace_hm now hour minute + usec_per_day"
  by (simp add: target_time_def Let_def)

lemma target_time_delay_pos:
  assumes "0 \<le> hour" and "0 \<le> minute"
  shows "0 < target_time hour minute now now - now"
proof (cases "replace_hm now hour minute \<le> now")
  case True
  have "now < (now div usec_per_day) * usec_per_day + usec_per_day"
    using usec_per_day_pos
    by (metis add.commute mult.commute div_mult_mod_eq add_less_cancel_left pos_mod_bound)
  with replace_hm_lower [OF assms, of now] True show ?thesis
    by (simp add: target_time_def Let_def)
next
  case False
  then show ?thesis by (simp add: target_time_def Let_def)
qed

section \<open>Selecting the script\<close>

text \<open>
  C5, as stated, fails: on a system where a file named \<open>cancel\<close> exists, the console
  program's \<^verbatim>\<open>select_script\<close> answers the input \<open>cancel\<close> with \<^verbatim>\<open>False\<close> and stores
  nothing.
\<close>

theorem existing_cancel_not_stored:
  "path_exists permissive ''cancel'' \<and>
   c_select_script permissive ''cancel'' simple_init = (False, print SelectPrompt simple_init) \<and>
   c_script_path (snd (c_select_script permissive ''cancel'' simple_init)) \<noteq> ''cancel''"
  by (simp add: c_select_script_def permissive_def strip_def is_space_def lower_def
      lower_char_def upper_letters_def lower_letters_def simple_init_def print_def Let_def)

text \<open>
  C5, amended. Let \<open>p\<close> be the input line without the white space around it (what
  \<^verbatim>\<open>str.strip()\<close> removes, the next-line control and the no-break space included). The
  console program's \<^verbatim>\<open>select_script\<close> succeeds exactly when \<open>p\<close> is not the word
  \<open>cancel\<close> (in any letter case) and \<open>p\<close> exists; then \<open>p\<close> is the new target. Otherwise the
  target is the previous one, and when \<open>p\<close> is not the word \<open>cancel\<close> the not-found message
  for \<open>p\<close> is printed. The window's \<^verbatim>\<open>select_script\<close> stores the file name the dialog
  returns unless it is empty, and makes no check of its own.
\<close>

theorem select_script_outcome:
  "fst (c_select_script sys inp c) =
     (lower (strip inp) \<noteq> ''cancel'' \<and> path_exists sys (strip inp)) \<and>
   c_script_path (snd (c_select_script sys inp c)) =
     (if lower (strip inp) \<noteq> ''cancel'' \<and> path_exists sys (strip inp) then strip inp
      else c_script_path c) \<and>
   console (snd (c_select_script sys inp c)) =
     console c @
       (if lower (strip inp) = ''cancel'' then [SelectPrompt]
        else if path_exists sys (strip inp) then
          [SelectPrompt, SelectedScript (basename (strip inp))]
        else [SelectPrompt, FileNotFound (strip inp)]) \<and>
   script_path (select_script file_name g) =
     (if file_name = [] then script_path g else file_name)"
  by (simp add: c_select_script_def select_script_def print_def Let_def)

theorem select_script_outcome_witness:
  "fst (c_select_script only_true '' /bin/false '' simple_init) = False \<and>
   c_script_path (snd (c_select_script only_true '' /bin/false '' simple_init)) = [] \<and>
   console (snd (c_select_script only_true '' /bin/false '' simple_init)) =
     [SelectPrompt, FileNotFound ''/bin/false''] \<and>
   fst (c_select_script only_true padded_true c_selected) = True \<and>
   c_script_path (snd (c_select_script only_true padded_true c_selected)) =
     ''/bin/true'' \<and>
   fst (c_select_script only_true ''CANCEL'' c_selected) = False \<and>
   c_script_path (snd (c_select_script only_true ''CANCEL'' c_selected)) = ''/bin/true'' \<and>
   fst (c_select_script only_true ''/bin/false'' c_selected) = False \<and>
   c_script_path (snd (c_select_script only_true ''/bin/false'' c_selected)) = ''/bin/true''"
proof -
  have c: "c_script_path c_selected = ''/bin/true''"
    by (simp add: c_selected_def c_select_script_def permissive_def strip_def is_space_def
        lower_def lower_char_def upper_letters_def lower_letters_def simple_init_def print_def
        Let_def)
  have 1: "strip '' /bin/false '' = ''/bin/false''"
    by (simp add: strip_def is_space_def)
  have 2: "strip padded_true = ''/bin/true''"
    by (simp add: padded_true_def strip_def is_space_def)
  have 3: "strip ''CANCEL'' = ''CANCEL''" "strip ''/bin/false'' = ''/bin/false''"
    by (simp_all add: strip_def is_space_def)
  have 4: "lower ''CANCEL'' = ''cancel''" "lower ''/bin/false'' = ''/bin/false''"
    "lower ''/bin/true'' = ''/bin/true''"
    by (simp_all add: lower_def lower_char_def upper_letters_def lower_letters_def)
  show ?thesis
    using select_script_outcome [of only_true "'' /bin/false ''" simple_init "[]" "init 0"]
      select_script_outcome [of only_true padded_true c_selected
        "[]" "init 0"]
      select_script_outcome [of only_true "''CANCEL''" c_selected "[]" "init 0"]
      select_script_outcome [of only_true "''/bin/false''" c_selected "[]" "init 0"]
    by (simp add: 1 2 3 4 c only_true_def simple_init_def)
qed

section \<open>Starting without a script\<close>

text \<open>
  C6. When no script is selected, each of the three start methods of the window shows the
  warning and returns the state it was given, and each of the three methods of the
  console program prints "No script selected!" and changes nothing else: no process, no
  tracked handle, no timer.
\<close>

theorem start_without_target:
  assumes "script_path g = []" and "c_script_path c = []"
  shows "start_close_timer sys g = (Some NoScript, g) \<and>
         start_repeat_timer sys g = (Some NoScript, g) \<and>
         start_schedule_timer today g = (Some NoScript, g) \<and>
         close_after_time sys inp lifetime c = Some (print NoScriptSelected c) \<and>
         repeat_every_time sys inp n c = print NoScriptSelected c \<and>
         start_at_time parsed daily now1 now2 now3 c = print NoScriptSelected c \<and>
         c_procs (print NoScriptSelected c) = c_procs c \<and>
         c_running_processes (print NoScriptSelected c) = c_running_processes c \<and>
         c_timers (print NoScriptSelected c) = c_timers c \<and>
         c_script_path (print NoScriptSelected c) = c_script_path c"
  using assms
  by (simp add: start_close_timer_def start_repeat_timer_def start_schedule_timer_def
      close_after_time_def repeat_every_time_def start_at_time_def print_def)

theorem start_without_target_witness:
  "script_path (init 0) = [] \<and> c_script_path simple_init = [] \<and>
   start_close_timer permissive (init 0) = (Some NoScript, init 0) \<and>
   start_repeat_timer permissive (init 0) = (Some NoScript, init 0) \<and>
   start_schedule_timer (QTime 10 0 0) (init 0) = (Some NoScript, init 0) \<and>
   close_after_time permissive (Some 1) None simple_init =
     Some (print NoScriptSelected simple_init) \<and>
   repeat_every_time permissive (Some 1) 3 simple_init = print NoScriptSelected simple_init \<and>
   start_at_time (Some (11, 0)) False 0 0 0 simple_init = print NoScriptSelected simple_init"
proof -
  have g: "script_path (init 0) = []" by (simp add: init_def)
  have c: "c_script_path simple_init = []" by (simp add: simple_init_def)
  show ?thesis
    using g c
      start_without_target [OF g c, of permissive "QTime 10 0 0" "Some 1" None 3
        "Some (11, 0)" False 0 0 0]
    by simp
qed

section \<open>A launch that fails\<close>

text \<open>No method of the window reads the status label.\<close>

lemma forget_status_update [simp]: "forget_status (s\<lparr>status_label := x\<rparr>) = forget_status s"
  by (simp add: forget_status_def)

lemma forget_status_eqD:
  assumes "forget_status s = forget_status t"
  shows "t = s\<lparr>status_label := status_label t\<rparr>"
proof -
  have "t = (forget_status t)\<lparr>status_label := status_label t\<rparr>"
    by (simp add: forget_status_def)
  also have "\<dots> = (forget_status s)\<lparr>status_label := status_label t\<rparr>"
    by (simp only: assms)
  also have "\<dots> = s\<lparr>status_label := status_label t\<rparr>"
    by (simp add: forget_status_def)
  finally show ?thesis .
qed

lemma run_scheduled_script_status:
  "run_scheduled_script sys (s\<lparr>status_label := x\<rparr>) = run_scheduled_script sys s"
  by (simp add: run_scheduled_script_def split: option.splits)

lemma check_one_status:
  "forget_status (check_one (s\<lparr>status_label := x\<rparr>) p) = forget_status (check_one s p)"
  by (simp add: check_one_def forget_status_def)

lemma foldl_check_one_status:
  "forget_status s = forget_status t \<Longrightarrow>
   forget_status (foldl check_one s ps) = forget_status (foldl check_one t ps)"
proof (induction ps arbitrary: s t)
  case Nil
  then show ?case by simp
next
  case (Cons p ps)
  from Cons.prems obtain x where "t = s\<lparr>status_label := x\<rparr>"
    by (blast dest: forget_status_eqD)
  then have "forget_status (check_one s p) = forget_status (check_one t p)"
    by (simp only: check_one_status)
  then have "forget_status (foldl check_one (check_one s p) ps) =
             forget_status (foldl check_one (check_one t p) ps)"
    by (rule Cons.IH)
  then show ?case by simp
qed

lemma check_processes_status:
  "forget_status (check_processes (s\<lparr>status_label := x\<rparr>)) = forget_status (check_processes s)"
  unfolding check_processes_def
  by (simp add: foldl_check_one_status [of "s\<lparr>status_label := x\<rparr>" s])

lemma funpow_run_scheduled_status:
  "forget_status ((run_scheduled_script sys ^^ n) (s\<lparr>status_label := x\<rparr>)) =
   forget_status ((run_scheduled_script sys ^^ n) s)"
  by (cases n) (simp_all add: funpow_Suc_right run_scheduled_script_status del: funpow.simps)

lemma handle_status:
  "forget_status (handle sys e (s\<lparr>status_label := x\<rparr>)) = forget_status (handle sys e s)"
proof (cases e)
  case TimerTimeout
  then show ?thesis by (simp add: timer_timeout_def check_processes_status)
next
  case ScheduleTimeout
  then show ?thesis by (simp add: schedule_timeout_def funpow_run_scheduled_status)
next
  case ClickClose
  then show ?thesis
    by (simp add: start_close_timer_def stop_close_timer_def run_script_def Let_def
        forget_status_def split: slot.splits option.splits)
next
  case ClickRepeat
  then show ?thesis
    by (simp add: start_repeat_timer_def stop_repeat_timer_def run_script_def Let_def
        forget_status_def split: slot.splits option.splits)
next
  case (ClickSchedule today)
  then show ?thesis
    by (simp add: start_schedule_timer_def stop_schedule_timer_def Let_def
        forget_status_def split: slot.splits)
next
  case (SingleShotTimeout i)
  then show ?thesis
    by (simp add: single_shot_timeout_def run_scheduled_script_def forget_status_def
        split: option.splits)
qed (simp_all add: select_script_def stop_all_def process_exits_def forget_status_def)

lemma run_status:
  "forget_status s = forget_status t \<Longrightarrow>
   forget_status (run sys es s) = forget_status (run sys es t)"
  unfolding run_def
proof (induction es arbitrary: s t)
  case Nil
  then show ?case by simp
next
  case (Cons e es)
  from Cons.prems obtain x where "t = s\<lparr>status_label := x\<rparr>"
    by (blast dest: forget_status_eqD)
  then have "forget_status (handle sys e s) = forget_status (handle sys e t)"
    by (simp only: handle_status)
  then have "forget_status (foldl (\<lambda>s e. handle sys e s) (handle sys e s) es) =
             forget_status (foldl (\<lambda>s e. handle sys e s) (handle sys e t) es)"
    by (rule Cons.IH)
  then show ?case by simp
qed

text \<open>
  When \<^verbatim>\<open>Popen\<close> raises with the message \<open>e\<close>, \<^verbatim>\<open>run_script\<close> and
  \<^verbatim>\<open>run_scheduled_script\<close> of the window return normally, with the error text for \<open>e\<close>
  in the status label and nothing else changed; \<^verbatim>\<open>run_script\<close> of the console program
  returns \<^verbatim>\<open>None\<close>, having printed the error line and changed nothing else. Whatever
  events follow in the window, the state they lead to is, the status text apart, the state
  they lead to without the failed launch.
\<close>

lemma failed_launch_changes_status_only:
  assumes "popen_error sys (script_path g) = Some e"
      and "popen_error sys (c_script_path c) = Some e'"
  shows "run_script sys g = g\<lparr>status_label := ErrorRunning e\<rparr> \<and>
         run_scheduled_script sys g = g\<lparr>status_label := ErrorRunningScheduled e\<rparr> \<and>
         c_run_script sys c = (None, c\<lparr>console := console c @ [ErrorRunningLine e']\<rparr>) \<and>
         forget_status (run sys es (run_script sys g)) = forget_status (run sys es g) \<and>
         forget_status (run sys es (run_scheduled_script sys g)) = forget_status (run sys es g)"
proof -
  have 1: "run_script sys g = g\<lparr>status_label := ErrorRunning e\<rparr>"
    using assms(1) by (simp add: run_script_def)
  have 2: "run_scheduled_script sys g = g\<lparr>status_label := ErrorRunningScheduled e\<rparr>"
    using assms(1) by (simp add: run_scheduled_script_def)
  have 3: "c_run_script sys c = (None, c\<lparr>console := console c @ [ErrorRunningLine e']\<rparr>)"
    using assms(2) by (simp add: c_run_script_def print_def)
  have 4: "forget_status (run sys es (run_script sys g)) = forget_status (run sys es g)"
    by (rule run_status) (simp add: 1)
  have 5: "forget_status (run sys es (run_scheduled_script sys g)) = forget_status (run sys es g)"
    by (rule run_status) (simp add: 2)
  from 1 2 3 4 5 show ?thesis by simp
qed

lemma failed_launch_changes_status_only_example:
  "popen_error denied (script_path unlaunchable) = Some ''[Errno 13] Permission denied'' \<and>
   popen_error denied (c_script_path c_unlaunchable) = Some ''[Errno 13] Permission denied'' \<and>
   run_script denied unlaunchable =
     unlaunchable\<lparr>status_label := ErrorRunning ''[Errno 13] Permission denied''\<rparr> \<and>
   c_run_script denied c_unlaunchable =
     (None, c_unlaunchable\<lparr>console := console c_unlaunchable @
        [ErrorRunningLine ''[Errno 13] Permission denied'']\<rparr>) \<and>
   forget_status (run denied [ClickClose, TimerTimeout] (run_script denied unlaunchable)) =
     forget_status (run denied [ClickClose, TimerTimeout] unlaunchable)"
proof -
  have g: "popen_error denied (script_path unlaunchable) = Some ''[Errno 13] Permission denied''"
    by (simp add: denied_def)
  have c: "popen_error denied (c_script_path c_unlaunchable) = Some ''[Errno 13] Permission denied''"
    by (simp add: denied_def)
  show ?thesis
    using g c failed_launch_changes_status_only [OF g c, of "[ClickClose, TimerTimeout]"]
    by blast
qed

text \<open>
  Within \<^verbatim>\<open>start_close_timer\<close> and \<^verbatim>\<open>start_repeat_timer\<close>, the only callers of the
  window's \<^verbatim>\<open>run_script\<close>, the status written by a failed launch is replaced at once by
  the status of the started timer, and the timer is armed all the same.
\<close>

lemma start_close_timer_launch_failure:
  assumes "script_path s \<noteq> []" and "popen_error sys (script_path s) = Some e"
  shows "start_close_timer sys s =
           (None, s\<lparr>timer := \<lparr>active = True, interval = close_time_spin s * 60000\<rparr>,
                    close_button := StopSlot, stop_button_enabled := True,
                    status_label := RunningFor (close_time_spin s)\<rparr>)"
  using assms by (simp add: start_close_timer_def run_script_def qtimer_start_def Let_def)

lemma start_repeat_timer_launch_failure:
  assumes "script_path s \<noteq> []" and "popen_error sys (script_path s) = Some e"
  shows "start_repeat_timer sys s =
           (None, s\<lparr>timer := \<lparr>active = True, interval = repeat_time_spin s * 60000\<rparr>,
                    repeat_button := StopSlot, stop_button_enabled := True,
                    status_label := WillRepeatEvery (repeat_time_spin s)\<rparr>)"
  using assms by (simp add: start_repeat_timer_def run_script_def qtimer_start_def Let_def)

text \<open>
  So no event leaves the error text of \<^verbatim>\<open>run_script\<close> in the status label: the window
  never shows it.
\<close>

lemma check_one_no_error:
  "status_label s \<noteq> ErrorRunning e \<Longrightarrow> status_label (check_one s p) \<noteq> ErrorRunning e"
  by (simp add: check_one_def)

lemma foldl_check_one_no_error:
  "status_label s \<noteq> ErrorRunning e \<Longrightarrow>
   status_label (foldl check_one s ps) \<noteq> ErrorRunning e"
proof (induction ps arbitrary: s)
  case Nil
  then show ?case by simp
next
  case (Cons p ps)
  from Cons.prems have "status_label (check_one s p) \<noteq> ErrorRunning e"
    by (rule check_one_no_error)
  then have "status_label (foldl check_one (check_one s p) ps) \<noteq> ErrorRunning e"
    by (rule Cons.IH)
  then show ?case by simp
qed

lemma run_scheduled_script_no_error:
  "status_label (run_scheduled_script sys s) \<noteq> ErrorRunning e"
  by (simp add: run_scheduled_script_def split: option.splits)

lemma funpow_run_scheduled_no_error:
  "status_label s \<noteq> ErrorRunning e \<Longrightarrow>
   status_label ((run_scheduled_script sys ^^ n) s) \<noteq> ErrorRunning e"
  by (cases n) (simp_all add: run_scheduled_script_no_error)

lemma handle_no_error:
  assumes "status_label s \<noteq> ErrorRunning e"
  shows "status_label (handle sys ev s) \<noteq> ErrorRunning e"
proof (cases ev)
  case TimerTimeout
  with assms show ?thesis
    by (simp add: timer_timeout_def check_processes_def foldl_check_one_no_error)
next
  case ScheduleTimeout
  with assms show ?thesis
    by (simp add: schedule_timeout_def funpow_run_scheduled_no_error)
next
  case ClickClose
  with assms show ?thesis
    by (simp add: start_close_timer_def stop_close_timer_def Let_def split: slot.splits)
next
  case ClickRepeat
  with assms show ?thesis
    by (simp add: start_repeat_timer_def stop_repeat_timer_def Let_def split: slot.splits)
next
  case (ClickSchedule today)
  with assms show ?thesis
    by (simp add: start_schedule_timer_def stop_schedule_timer_def Let_def split: slot.splits)
next
  case (SingleShotTimeout i)
  with assms show ?thesis
    by (simp add: single_shot_timeout_def run_scheduled_script_no_error)
qed (use assms in \<open>simp_all add: select_script_def stop_all_def process_exits_def\<close>)

lemma run_no_error:
  "status_label s \<noteq> ErrorRunning e \<Longrightarrow> status_label (run sys es s) \<noteq> ErrorRunning e"
  unfolding run_def
proof (induction es arbitrary: s)
  case Nil
  then show ?case by simp
next
  case (Cons ev es)
  from Cons.prems have "status_label (handle sys ev s) \<noteq> ErrorRunning e"
    by (rule handle_no_error)
  then have "status_label (foldl (\<lambda>s e. handle sys e s) (handle sys ev s) es) \<noteq> ErrorRunning e"
    by (rule Cons.IH)
  then show ?case by simp
qed

lemma unlaunchable_eq:
  "unlaunchable = (init (QTime 9 0 0))\<lparr>script_path := ''/etc/passwd'',
     status_label := ScriptSelected ''passwd''\<rparr>"
  by (simp add: unlaunchable_def run_def select_script_def basename_def)

text \<open>
  C8 (the window does not do what is stated). A script is selected that the system does
  not permit to launch, and "Start Close Timer" is clicked: nothing is launched, yet the
  status reads that the script is running for 10 minutes and \<^verbatim>\<open>self.timer\<close> is armed;
  "Start Repeat Timer" likewise ends with the status of a started repetition. In no
  session at all, on any system, does the status label hold the error text of
  \<^verbatim>\<open>run_script\<close> after an event: the failure of a launch attempted through
  \<^verbatim>\<open>run_script\<close> is never reported.
\<close>

theorem launch_failure_status_overwritten:
  "status_label (handle denied ClickClose unlaunchable) = RunningFor 10 \<and>
   timer (handle denied ClickClose unlaunchable) = \<lparr>active = True, interval = 600000\<rparr> \<and>
   procs (handle denied ClickClose unlaunchable) = [] \<and>
   running_processes (handle denied ClickClose unlaunchable) = [] \<and>
   status_label (handle denied ClickRepeat unlaunchable) = WillRepeatEvery 30 \<and>
   (\<forall>sys es now e. status_label (run sys es (init now)) \<noteq> ErrorRunning e)"
proof -
  have "status_label (run sys es (init now)) \<noteq> ErrorRunning e" for sys es now e
    by (rule run_no_error) (simp add: init_def)
  then show ?thesis
    by (simp add: unlaunchable_eq init_def start_close_timer_def start_repeat_timer_def
        run_script_def denied_def qtimer_start_def Let_def)
qed

text \<open>
  C10. A launch that fails leaves the tracked list and the process table as they were; a
  launch that succeeds appends the new process to the table and its handle to the tracked
  list. This holds for \<^verbatim>\<open>run_script\<close> and \<^verbatim>\<open>run_scheduled_script\<close> of the window and
  for \<^verbatim>\<open>run_script\<close> of the console program, which returns the handle or \<^verbatim>\<open>None\<close>.
\<close>

theorem failed_launch_keeps_tracked:
  "running_processes (run_script sys g) =
     (if popen_error sys (script_path g) = None then running_processes g @ [length (procs g)]
      else running_processes g) \<and>
   procs (run_script sys g) =
     (if popen_error sys (script_path g) = None then procs g @ [Running] else procs g) \<and>
   running_processes (run_scheduled_script sys g) =
     (if popen_error sys (script_path g) = None then running_processes g @ [length (procs g)]
      else running_processes g) \<and>
   procs (run_scheduled_script sys g) =
     (if popen_error sys (script_path g) = None then procs g @ [Running] else procs g) \<and>
   fst (c_run_script sys c) =
     (if popen_error sys (c_script_path c) = None then Some (length (c_procs c)) else None) \<and>
   c_running_processes (snd (c_run_script sys c)) =
     (if popen_error sys (c_script_path c) = None
      then c_running_processes c @ [length (c_procs c)] else c_running_processes c) \<and>
   c_procs (snd (c_run_script sys c)) =
     (if popen_error sys (c_script_path c) = None then c_procs c @ [Running] else c_procs c)"
  by (auto simp: run_script_def run_scheduled_script_def c_run_script_def print_def)

theorem failed_launch_keeps_tracked_witness:
  "popen_error denied (script_path close_started) \<noteq> None \<and>
   running_processes close_started = [0] \<and>
   running_processes (run_script denied close_started) = [0] \<and>
   procs (run_script denied close_started) = [Running] \<and>
   running_processes (run_scheduled_script denied close_started) = [0] \<and>
   popen_error permissive (script_path close_started) = None \<and>
   running_processes (run_script permissive close_started) = [0, 1] \<and>
   procs (run_script permissive close_started) = [Running, Running]"
  using failed_launch_keeps_tracked [of denied close_started simple_init]
    failed_launch_keeps_tracked [of permissive close_started simple_init]
  by (simp add: denied_def permissive_def close_started_eq)

section \<open>Policies armed together\<close>

text \<open>
  C9, as stated, fails: after "Start Close Timer" and then "Start Schedule Timer" the close
  policy and the schedule policy are both started, \<^verbatim>\<open>self.timer\<close> is active and a
  single-shot timer is pending, with the one tracked list holding the launched process.
\<close>

theorem two_policies_armed:
  "close_button both_armed = StopSlot \<and> active (timer both_armed) \<and>
   schedule_button both_armed = StopSlot \<and> single_shots both_armed = [3600000] \<and>
   running_processes both_armed = [0]"
  by (simp add: both_armed_def run_def init_def select_script_def start_schedule_timer_def
      start_close_timer_def run_script_def permissive_def qtimer_start_def
      time_diff_def msecsTo_def msecsSinceStartOfDay_def QTime_def Let_def)

text \<open>
  C9, amended. The close policy and the repeat policy use the one timer \<^verbatim>\<open>self.timer\<close>:
  starting either while the other is started arms that timer anew with the interval of
  the one started last, so that at most one of their intervals is armed. The schedule
  policy leaves \<^verbatim>\<open>self.timer\<close> as it is: for a time of day later than the current
  time it arms a single-shot timer of its own, with the time between the two as its delay,
  and when "Repeat daily" is checked it starts \<^verbatim>\<open>self.schedule_timer\<close> with 24 hours.
  Starting the close or the repeat policy leaves the single-shot timers and
  \<^verbatim>\<open>self.schedule_timer\<close> as they are. So the schedule policy can be armed together
  with one of the other two, and every launch, from a start method or from a timer of the
  schedule policy, adds its handle to the one tracked list. (What the schedule policy
  arms for a time of day that is not later than the current time is left open here.)
\<close>

theorem interval_timer_shared:
  assumes "script_path s \<noteq> []"
  shows "timer (snd (start_repeat_timer sys (snd (start_close_timer sys s)))) =
           \<lparr>active = True, interval = repeat_time_spin s * 60000\<rparr> \<and>
         timer (snd (start_close_timer sys (snd (start_repeat_timer sys s)))) =
           \<lparr>active = True, interval = close_time_spin s * 60000\<rparr> \<and>
         timer (snd (start_schedule_timer today s)) = timer s \<and>
         schedule_timer (snd (start_schedule_timer today s)) =
           (if schedule_checkbox s then \<lparr>active = True, interval = 86400000\<rparr>
            else schedule_timer s) \<and>
         running_processes (snd (start_schedule_timer today s)) = running_processes s \<and>
         single_shots (snd (start_close_timer sys s)) = single_shots s \<and>
         schedule_timer (snd (start_close_timer sys s)) = schedule_timer s \<and>
         single_shots (snd (start_repeat_timer sys s)) = single_shots s \<and>
         schedule_timer (snd (start_repeat_timer sys s)) = schedule_timer s \<and>
         running_processes (snd (start_close_timer sys s)) =
           (if popen_error sys (script_path s) = None
            then running_processes s @ [length (procs s)] else running_processes s) \<and>
         running_processes (snd (start_repeat_timer sys s)) =
           (if popen_error sys (script_path s) = None
            then running_processes s @ [length (procs s)] else running_processes s) \<and>
         running_processes (run_scheduled_script sys s) =
           (if popen_error sys (script_path s) = None
            then running_processes s @ [length (procs s)] else running_processes s) \<and>
         (today < time_edit s \<longrightarrow>
            armed_single_shots (snd (start_schedule_timer today s)) =
              armed_single_shots s @ [time_edit s - today] \<and>
            active (timer (snd (start_schedule_timer today (snd (start_close_timer sys s))))) \<and>
            armed_single_shots (snd (start_schedule_timer today (snd (start_close_timer sys s)))) =
              armed_single_shots s @ [time_edit s - today] \<and>
            active (timer (snd (start_schedule_timer today (snd (start_repeat_timer sys s))))) \<and>
            armed_single_shots (snd (start_schedule_timer today (snd (start_repeat_timer sys s)))) =
              armed_single_shots s @ [time_edit s - today])"
proof -
  have timers:
    "timer (snd (start_repeat_timer sys (snd (start_close_timer sys s)))) =
       \<lparr>active = True, interval = repeat_time_spin s * 60000\<rparr>"
    "timer (snd (start_close_timer sys (snd (start_repeat_timer sys s)))) =
       \<lparr>active = True, interval = close_time_spin s * 60000\<rparr>"
    using assms
    by (simp_all add: start_close_timer_def start_repeat_timer_def run_script_def
        qtimer_start_def Let_def split: option.splits)
  have schedule:
    "timer (snd (start_schedule_timer today s)) = timer s"
    "schedule_timer (snd (start_schedule_timer today s)) =
       (if schedule_checkbox s then \<lparr>active = True, interval = 86400000\<rparr> else schedule_timer s)"
    "running_processes (snd (start_schedule_timer today s)) = running_processes s"
    using assms by (simp_all add: start_schedule_timer_def qtimer_start_def Let_def)
  have untouched:
    "single_shots (snd (start_close_timer sys s)) = single_shots s"
    "schedule_timer (snd (start_close_timer sys s)) = schedule_timer s"
    "single_shots (snd (start_repeat_timer sys s)) = single_shots s"
    "schedule_timer (snd (start_repeat_timer sys s)) = schedule_timer s"
    using assms
    by (simp_all add: start_close_timer_def start_repeat_timer_def run_script_def Let_def
        split: option.splits)
  have tracked:
    "running_processes (snd (start_close_timer sys s)) =
       (if popen_error sys (script_path s) = None
        then running_processes s @ [length (procs s)] else running_processes s)"
    "running_processes (snd (start_repeat_timer sys s)) =
       (if popen_error sys (script_path s) = None
        then running_processes s @ [length (procs s)] else running_processes s)"
    "running_processes (run_scheduled_script sys s) =
       (if popen_error sys (script_path s) = None
        then running_processes s @ [length (procs s)] else running_processes s)"
    using assms
    by (auto simp: start_close_timer_def start_repeat_timer_def run_script_def
        run_scheduled_script_def Let_def)
  have together:
    "armed_single_shots (snd (start_schedule_timer today s)) =
       armed_single_shots s @ [time_edit s - today]"
    "active (timer (snd (start_schedule_timer today (snd (start_close_timer sys s)))))"
    "armed_single_shots (snd (start_schedule_timer today (snd (start_close_timer sys s)))) =
       armed_single_shots s @ [time_edit s - today]"
    "active (timer (snd (start_schedule_timer today (snd (start_repeat_timer sys s)))))"
    "armed_single_shots (snd (start_schedule_timer today (snd (start_repeat_timer sys s)))) =
       armed_single_shots s @ [time_edit s - today]"
    if "today < time_edit s"
    using assms that
    by (simp_all add: start_schedule_timer_def start_close_timer_def start_repeat_timer_def
        run_script_def armed_single_shots_def time_diff_def msecsTo_def qtimer_start_def Let_def
        split: option.splits)
  from timers schedule untouched tracked together show ?thesis
    by blast
qed

lemma repeating_daily_eq:
  "repeating_daily =
     \<lparr>script_path = ''/bin/true'', timer = \<lparr>active = True, interval = 420000\<rparr>,
      schedule_timer = \<lparr>active = True, interval = 86400000\<rparr>, schedule_conns = 1,
      single_shots = [3600000], running_processes = [0], procs = [Running],
      close_time_spin = 5, repeat_time_spin = 7, time_edit = 39600000,
      schedule_checkbox = True, close_button = StartSlot, repeat_button = StopSlot,
      schedule_button = StopSlot, stop_button_enabled = True,
      status_label = WillRepeatEvery 7\<rparr>"
  by (simp add: repeating_daily_def run_def init_def select_script_def spin_value_def
      start_schedule_timer_def start_repeat_timer_def run_script_def permissive_def
      time_diff_def msecsTo_def QTime_def qtimer_start_def qtimer_new_def Let_def)

theorem interval_timer_shared_witness:
  "script_path repeating_daily \<noteq> [] \<and> QTime 10 30 0 < time_edit repeating_daily \<and>
   timer repeating_daily = \<lparr>active = True, interval = 420000\<rparr> \<and>
   timer (snd (start_close_timer permissive (snd (start_repeat_timer permissive repeating_daily)))) =
     \<lparr>active = True, interval = 300000\<rparr> \<and>
   timer (snd (start_repeat_timer permissive (snd (start_close_timer permissive repeating_daily)))) =
     \<lparr>active = True, interval = 420000\<rparr> \<and>
   timer (snd (start_schedule_timer (QTime 10 30 0) repeating_daily)) =
     \<lparr>active = True, interval = 420000\<rparr> \<and>
   schedule_timer (snd (start_schedule_timer (QTime 10 30 0) repeating_daily)) =
     \<lparr>active = True, interval = 86400000\<rparr> \<and>
   single_shots (snd (start_close_timer permissive repeating_daily)) = [3600000] \<and>
   schedule_timer (snd (start_close_timer permissive repeating_daily)) =
     \<lparr>active = True, interval = 86400000\<rparr> \<and>
   running_processes (snd (start_close_timer permissive repeating_daily)) = [0, 1] \<and>
   running_processes (run_scheduled_script permissive repeating_daily) = [0, 1] \<and>
   running_processes (snd (start_close_timer denied repeating_daily)) = [0] \<and>
   armed_single_shots (snd (start_schedule_timer (QTime 10 30 0) repeating_daily)) =
     [3600000, 1800000] \<and>
   active (timer (snd (start_schedule_timer (QTime 10 30 0)
                    (snd (start_close_timer permissive repeating_daily))))) \<and>
   armed_single_shots (snd (start_schedule_timer (QTime 10 30 0)
                             (snd (start_close_timer permissive repeating_daily)))) =
     [3600000, 1800000]"
proof -
  have h: "script_path repeating_daily \<noteq> []"
    by (simp add: repeating_daily_eq)
  have t: "QTime 10 30 0 < time_edit repeating_daily"
    by (simp add: repeating_daily_eq QTime_def)
  have v: "timer repeating_daily = \<lparr>active = True, interval = 420000\<rparr>"
    "schedule_timer repeating_daily = \<lparr>active = True, interval = 86400000\<rparr>"
    "single_shots repeating_daily = [3600000]" "armed_single_shots repeating_daily = [3600000]"
    "running_processes repeating_daily = [0]" "procs repeating_daily = [Running]"
    "close_time_spin repeating_daily = 5" "repeat_time_spin repeating_daily = 7"
    "schedule_checkbox repeating_daily"
    "time_edit repeating_daily - QTime 10 30 0 = 1800000"
    "popen_error permissive (script_path repeating_daily) = None"
    "popen_error denied (script_path repeating_daily) \<noteq> None"
    by (simp_all add: repeating_daily_eq armed_single_shots_def QTime_def permissive_def
        denied_def)
  show ?thesis
    using h t interval_timer_shared [OF h, of permissive "QTime 10 30 0"]
      interval_timer_shared [OF h, of denied "QTime 10 30 0"]
    by (simp add: v)
qed

end
